theory Spec2Isabelle
  imports Main
begin

section \<open>The inventory collector of problem3/aws\_inspector.py\<close>

text \<open>
  The program talks to a cloud provider through a client library and prints to the
  error stream. Both are written out here: a run is a function from a state to a result
  and a new state, and a result is either a value or the exception that was raised.
  The provider's side of the state is a type variable \<open>'w\<close>; nothing is assumed about it.
\<close>

subsection \<open>Exceptions\<close>

datatype exc =
    EndpointConnectionError
  | ConnectTimeoutError
  | ReadTimeoutError
  | ClientError string
  | KeyError string
  | KeyboardInterrupt
  | SystemExit int
  | OtherException string

text \<open>The tuple of the two \<open>except\<close> clauses of \<open>try_once_retry_once\<close>.\<close>

fun is_network :: "exc \<Rightarrow> bool" where
  "is_network EndpointConnectionError = True"
| "is_network ConnectTimeoutError = True"
| "is_network ReadTimeoutError = True"
| "is_network _ = False"

fun is_client_error :: "exc \<Rightarrow> bool" where
  "is_client_error (ClientError _) = True"
| "is_client_error _ = False"

subsection \<open>The state of a run\<close>

text \<open>
  \<open>world\<close> is the provider's state, moved only by client calls. \<open>locals\<close> holds the
  variables of an enclosing function that a nested function assigns through
  \<open>nonlocal\<close>. \<open>stderr\<close> is the lines printed to the error stream, \<open>slept\<close> counts the
  calls to \<open>time.sleep(1.0)\<close>, and \<open>calls\<close> records every client call in the order made.
\<close>

datatype call =
    GetCallerIdentity
  | GetPaginatorListUsers
  | ListUsers
  | GetUser "string option"
  | ListAttachedUserPolicies "string option"
  | DescribeInstances
  | DescribeImages "string list"
  | ListBuckets
  | GetBucketLocation string
  | ListObjectsV2 string
  | DescribeSecurityGroups

record ('w, 'l) st =
  world :: 'w
  locals :: 'l
  stderr :: "string list"
  slept :: nat
  calls :: "call list"

type_synonym ('a, 'w, 'l) io = "('w, 'l) st \<Rightarrow> (exc + 'a) \<times> ('w, 'l) st"

definition set_locals :: "'k \<Rightarrow> ('w, 'l) st \<Rightarrow> ('w, 'k) st" where
  "set_locals k s =
     \<lparr>world = world s, locals = k, stderr = stderr s, slept = slept s, calls = calls s\<rparr>"

definition warn :: "string \<Rightarrow> ('w, 'l) st \<Rightarrow> ('w, 'l) st" where
  "warn msg s = s\<lparr>stderr := stderr s @ [''[WARNING] '' @ msg]\<rparr>"

definition error :: "string \<Rightarrow> ('w, 'l) st \<Rightarrow> ('w, 'l) st" where
  "error msg s = s\<lparr>stderr := stderr s @ [''[ERROR] '' @ msg]\<rparr>"

definition sleep :: "('w, 'l) st \<Rightarrow> ('w, 'l) st" where
  "sleep s = s\<lparr>slept := Suc (slept s)\<rparr>"

text \<open>A client call: the provider answers and moves on, and the call is recorded.\<close>

definition call :: "call \<Rightarrow> ('w \<Rightarrow> 'r \<times> 'w) \<Rightarrow> ('w, 'l) st \<Rightarrow> 'r \<times> ('w, 'l) st" where
  "call tag op s =
     (case op (world s) of (r, w') \<Rightarrow> (r, s\<lparr>world := w', calls := calls s @ [tag]\<rparr>))"

subsection \<open>The retry guard\<close>

text \<open>
  \<open>try_once_retry_once(fn, on=...)\<close>: the value of \<open>fn()\<close>, or after a network error a
  warning, one second of sleep and the value of a second \<open>fn()\<close>; \<open>None\<close> when that fails
  with a network error too. Any other exception leaves both \<open>try\<close> blocks.
\<close>

definition try_once_retry_once ::
  "('a, 'w, 'l) io \<Rightarrow> string \<Rightarrow> ('a option, 'w, 'l) io" where
  "try_once_retry_once fn on s =
     (case fn s of
        (Inr v, s1) \<Rightarrow> (Inr (Some v), s1)
      | (Inl e, s1) \<Rightarrow>
          if is_network e then
            (case fn (sleep (warn (''Network issue while '' @ on @ '', retrying...'') s1)) of
               (Inr v, s2) \<Rightarrow> (Inr (Some v), s2)
             | (Inl e', s2) \<Rightarrow>
                 if is_network e'
                 then (Inr None, warn (''Network issue persisted while '' @ on @ '', skipping.'') s2)
                 else (Inl e', s2))
          else (Inl e, s1))"

text \<open>
  To count the invocations of an operation, \<open>counted fn\<close> runs \<open>fn\<close> on the state it
  would have seen and bumps a counter kept beside its locals, where \<open>fn\<close> cannot read it.
\<close>

definition counted :: "('a, 'w, 'l) io \<Rightarrow> ('a, 'w, nat \<times> 'l) io" where
  "counted fn s =
     (case fn (set_locals (snd (locals s)) s) of
        (r, s') \<Rightarrow> (r, set_locals (Suc (fst (locals s)), locals s') s'))"

definition with_count :: "nat \<Rightarrow> ('w, 'l) st \<Rightarrow> ('w, nat \<times> 'l) st" where
  "with_count n s = set_locals (n, locals s) s"

subsection \<open>Python values and the provider's answers\<close>

text \<open>
  The records the collectors build are Python dictionaries, kept as association lists in
  insertion order with unique keys. \<open>dict_set\<close> is \<open>d[k] = v\<close>.
\<close>

datatype pyval =
    PNone
  | PStr string
  | PInt int
  | PList "pyval list"
  | PDict "(pyval \<times> pyval) list"

type_synonym pydict = "(pyval \<times> pyval) list"

fun dict_set :: "pydict \<Rightarrow> pyval \<Rightarrow> pyval \<Rightarrow> pydict" where
  "dict_set [] k v = [(k, v)]"
| "dict_set ((k', v') # d) k v =
     (if k' = k then (k, v) # d else (k', v') # dict_set d k v)"

definition dict_get :: "pydict \<Rightarrow> string \<Rightarrow> pyval" where
  "dict_get d k = (case map_of d (PStr k) of None \<Rightarrow> PNone | Some v \<Rightarrow> v)"

definition opt_str :: "string option \<Rightarrow> pyval" where
  "opt_str x = (case x of None \<Rightarrow> PNone | Some s \<Rightarrow> PStr s)"

definition get_list :: "'a list option \<Rightarrow> 'a list" where
  "get_list x = (case x of None \<Rightarrow> [] | Some xs \<Rightarrow> xs)"

definition or_str :: "string option \<Rightarrow> string \<Rightarrow> string" where
  "or_str x d = (case x of None \<Rightarrow> d | Some s \<Rightarrow> if s = [] then d else s)"

definition or_list :: "'a list option \<Rightarrow> 'a list \<Rightarrow> 'a list" where
  "or_list x out = (case x of None \<Rightarrow> out | Some xs \<Rightarrow> if xs = [] then out else xs)"

definition str_opt :: "string option \<Rightarrow> string" where
  "str_opt x = (case x of None \<Rightarrow> ''None'' | Some s \<Rightarrow> s)"

text \<open>\<open>str\<close> of an integer, and of a port that may be \<open>None\<close>.\<close>

fun str_nat :: "nat \<Rightarrow> string" where
  "str_nat n =
     (if n < 10 then [''0123456789'' ! n]
      else str_nat (n div 10) @ [''0123456789'' ! (n mod 10)])"

declare str_nat.simps [simp del]

definition str_int :: "int \<Rightarrow> string" where
  "str_int i = (if i < 0 then ''-'' @ str_nat (nat (- i)) else str_nat (nat i))"

definition str_port :: "int option \<Rightarrow> string" where
  "str_port x = (case x of None \<Rightarrow> ''None'' | Some i \<Rightarrow> str_int i)"

fun join :: "string \<Rightarrow> string list \<Rightarrow> string" where
  "join sep [] = []"
| "join sep [x] = x"
| "join sep (x # y # ys) = x @ sep @ join sep (y # ys)"

text \<open>
  A \<open>datetime\<close> stands for its rendering by
  \<open>astimezone(timezone.utc).strftime("%Y-%m-%dT%H:%M:%SZ")\<close>, which is library code;
  \<open>utc_iso\<close> keeps the test for a missing value.
\<close>

type_synonym datetime = string

definition utc_iso :: "datetime option \<Rightarrow> string option" where
  "utc_iso dt = (case dt of None \<Rightarrow> None | Some d \<Rightarrow> Some d)"

text \<open>
  The answers of the provider, with the keys the program reads. A key read with
  \<open>.get\<close> may be missing (\<open>None\<close>); a key read with \<open>[...]\<close> raises \<open>KeyError\<close> when missing.
\<close>

record identity_resp =
  Account :: "string option"
  Arn :: "string option"

record user_raw =
  UserName :: "string option"
  CreateDate :: "datetime option"
  UserId :: "string option"
  user_Arn :: "string option"

record user_detail =
  PasswordLastUsed :: "datetime option"

record get_user_resp =
  User :: "user_detail option"

record policy_raw =
  PolicyName :: "string option"
  PolicyArn :: "string option"

record policies_page =
  AttachedPolicies :: "policy_raw list option"

record users_page =
  Users :: "user_raw list option"

record sg_ref =
  ref_GroupId :: "string option"

record tag_raw =
  Key :: "string option"
  Value :: "string option"

record inst_state =
  state_Name :: "string option"

record placement =
  AvailabilityZone :: "string option"

record instance_raw =
  InstanceId :: "string option"
  InstanceType :: "string option"
  State :: "inst_state option"
  PublicIpAddress :: "string option"
  PrivateIpAddress :: "string option"
  Placement :: "placement option"
  LaunchTime :: "datetime option"
  ImageId :: "string option"
  SecurityGroups :: "sg_ref list option"
  Tags :: "tag_raw list option"

record reservation =
  Instances :: "instance_raw list option"

record instances_page =
  Reservations :: "reservation list option"

record image_raw =
  img_ImageId :: "string option"
  img_Name :: "string option"

record images_resp =
  Images :: "image_raw list option"

record bucket_raw =
  bucket_Name :: "string option"
  CreationDate :: "datetime option"

record buckets_resp =
  Buckets :: "bucket_raw list option"

record location_resp =
  LocationConstraint :: "string option"

record object_raw =
  Size :: "int option"

record objects_page =
  Contents :: "object_raw list option"

record ip_range =
  CidrIp :: "string option"

record perm_raw =
  IpProtocol :: "string option"
  FromPort :: "int option"
  ToPort :: "int option"
  IpRanges :: "ip_range list option"

record sg_raw =
  GroupId :: "string option"
  GroupName :: "string option"
  Description :: "string option"
  VpcId :: "string option"
  IpPermissions :: "perm_raw list option"
  IpPermissionsEgress :: "perm_raw list option"

record sgs_page =
  page_SecurityGroups :: "sg_raw list option"

text \<open>
  The session and the clients. A single call answers with a value or raises; the
  retries that the client library makes on its own (\<open>Config(retries=...)\<close>) are inside
  the call. A paginated listing answers with the pages it yields and the exception, if
  any, that the fetch of the next page raises; the loop over it handles every yielded
  page and then meets the exception. The listing is taken as one interaction with the
  provider: the calls that a loop body makes for the items of a page come after it.
\<close>

type_synonym 'p paged = "'p list \<times> exc option"

record 'w aws =
  available_regions :: "string list"
  region_name :: "string option"
  now :: "'w \<Rightarrow> datetime"
  get_caller_identity :: "'w \<Rightarrow> (exc + identity_resp) \<times> 'w"
  get_paginator_list_users :: "'w \<Rightarrow> (exc + unit) \<times> 'w"
  list_users :: "'w \<Rightarrow> users_page paged \<times> 'w"
  get_user :: "string option \<Rightarrow> 'w \<Rightarrow> (exc + get_user_resp) \<times> 'w"
  list_attached_user_policies :: "string option \<Rightarrow> 'w \<Rightarrow> policies_page paged \<times> 'w"
  describe_instances :: "'w \<Rightarrow> instances_page paged \<times> 'w"
  describe_images :: "string list \<Rightarrow> 'w \<Rightarrow> (exc + images_resp) \<times> 'w"
  list_buckets :: "'w \<Rightarrow> (exc + buckets_resp) \<times> 'w"
  get_bucket_location :: "string \<Rightarrow> 'w \<Rightarrow> (exc + location_resp) \<times> 'w"
  list_objects_v2 :: "string \<Rightarrow> 'w \<Rightarrow> objects_page paged \<times> 'w"
  describe_security_groups :: "'w \<Rightarrow> sgs_page paged \<times> 'w"

text \<open>A \<open>for\<close> loop whose body may raise, and the end of a loop over a paginated listing.\<close>

fun for_each :: "('x \<Rightarrow> 'acc \<Rightarrow> ('acc, 'w, 'l) io) \<Rightarrow> 'x list \<Rightarrow> 'acc \<Rightarrow> ('acc, 'w, 'l) io" where
  "for_each body [] acc s = (Inr acc, s)"
| "for_each body (x # xs) acc s =
     (case body x acc s of
        (Inl e, s') \<Rightarrow> (Inl e, s')
      | (Inr acc', s') \<Rightarrow> for_each body xs acc' s')"

definition after_pages :: "exc option \<Rightarrow> 'a \<Rightarrow> ('a, 'w, 'l) io" where
  "after_pages eo v s = (case eo of None \<Rightarrow> (Inr v, s) | Some e \<Rightarrow> (Inl e, s))"

definition or_out :: "(exc + 'a list option) \<times> 's \<Rightarrow> 'a list \<Rightarrow> (exc + 'a list) \<times> 's" where
  "or_out r out = (case r of (Inl e, s) \<Rightarrow> (Inl e, s) | (Inr x, s) \<Rightarrow> (Inr (or_list x out), s))"

subsection \<open>Region and identity\<close>

definition validate_region_or_exit :: "'w aws \<Rightarrow> string option \<Rightarrow> (string, 'w, 'l) io" where
  "validate_region_or_exit session region s =
     (case region of
        Some r \<Rightarrow>
          if r \<noteq> [] then
            (if r \<notin> set (available_regions session)
             then (Inl (SystemExit 2), error (''Invalid region '' @ [CHR 0x27] @ r @ [CHR 0x27]) s)
             else (Inr r, s))
          else (Inr (or_str (region_name session) ''unknown''), s)
      | None \<Rightarrow> (Inr (or_str (region_name session) ''unknown''), s))"

definition get_account_identity :: "'w aws \<Rightarrow> (string \<times> string, 'w, 'l) io" where
  "get_account_identity sts_client s =
     (case call GetCallerIdentity (get_caller_identity sts_client) s of
        (Inr ident, s1) \<Rightarrow>
          (Inr (case Account ident of None \<Rightarrow> [] | Some a \<Rightarrow> a,
                case Arn ident of None \<Rightarrow> [] | Some a \<Rightarrow> a), s1)
      | (Inl (ClientError m), s1) \<Rightarrow>
          (Inl (SystemExit 1), error (''Authentication failed: '' @ m) s1)
      | (Inl e, s1) \<Rightarrow> (Inl e, s1))"

subsection \<open>IAM users\<close>

definition policy_entry :: "policy_raw \<Rightarrow> pyval" where
  "policy_entry p =
     PDict [(PStr ''policy_name'', opt_str (PolicyName p)),
            (PStr ''policy_arn'', opt_str (PolicyArn p))]"

text \<open>The body of the loop over the users of a page; it appends to \<open>results\<close>.\<close>

definition iam_user_body :: "'w aws \<Rightarrow> user_raw \<Rightarrow> pydict list \<Rightarrow> (pydict list, 'w, 'l) io" where
  "iam_user_body iam_client u results s =
     (let username = UserName u;
          create_date = utc_iso (CreateDate u)
      in case call (GetUser username) (get_user iam_client username) s of
        (r1, s1) \<Rightarrow>
          (case (case r1 of
                   Inr gu \<Rightarrow>
                     Inr (utc_iso (case User gu of None \<Rightarrow> None
                                   | Some d \<Rightarrow> PasswordLastUsed d))
                 | Inl e \<Rightarrow> if is_client_error e then Inr None else Inl e) of
             Inl e \<Rightarrow> (Inl e, s1)
           | Inr last_activity \<Rightarrow>
               (case call (ListAttachedUserPolicies username)
                       (list_attached_user_policies iam_client username) s1 of
                  ((pol_pages, eo), s2) \<Rightarrow>
                    (let attached =
                           map policy_entry
                             (concat (map (\<lambda>pol_page. get_list (AttachedPolicies pol_page)) pol_pages));
                         record =
                           [(PStr ''username'', opt_str username),
                            (PStr ''user_id'', opt_str (UserId u)),
                            (PStr ''arn'', opt_str (user_Arn u)),
                            (PStr ''create_date'', opt_str create_date),
                            (PStr ''last_activity'', opt_str last_activity),
                            (PStr ''attached_policies'', PList attached)]
                     in case eo of
                          None \<Rightarrow> (Inr (results @ [record]), s2)
                        | Some e \<Rightarrow>
                            if is_client_error e
                            then (Inr (results @ [record]),
                                  warn (''Cannot list policies for '' @ str_opt username) s2)
                            else (Inl e, s2)))))"

definition iam_run :: "'w aws \<Rightarrow> (pydict list, 'w, 'l) io" where
  "iam_run iam_client s =
     (case call ListUsers (list_users iam_client) s of
        ((pages, eo), s1) \<Rightarrow>
          (case for_each (iam_user_body iam_client)
                  (concat (map (\<lambda>page. get_list (Users page)) pages)) [] s1 of
             (Inl e, s2) \<Rightarrow> (Inl e, s2)
           | (Inr results, s2) \<Rightarrow> after_pages eo results s2))"

definition collect_iam_users :: "'w aws \<Rightarrow> (pydict list, 'w, 'l) io" where
  "collect_iam_users iam_client s =
     (case call GetPaginatorListUsers (get_paginator_list_users iam_client) s of
        (Inl e, s1) \<Rightarrow> if is_client_error e then (Inr [], s1) else (Inl e, s1)
      | (Inr _, s1) \<Rightarrow> or_out (try_once_retry_once (iam_run iam_client) ''IAM users'' s1) [])"

subsection \<open>EC2 instances\<close>

fun tags_dict :: "tag_raw list \<Rightarrow> pydict \<Rightarrow> pydict" where
  "tags_dict [] d = d"
| "tags_dict (t # ts) d = tags_dict ts (dict_set d (opt_str (Key t)) (opt_str (Value t)))"

definition instance_record :: "instance_raw \<Rightarrow> pydict" where
  "instance_record inst =
     [(PStr ''instance_id'', opt_str (InstanceId inst)),
      (PStr ''instance_type'', opt_str (InstanceType inst)),
      (PStr ''state'', opt_str (case State inst of None \<Rightarrow> None | Some st \<Rightarrow> state_Name st)),
      (PStr ''public_ip'', opt_str (PublicIpAddress inst)),
      (PStr ''private_ip'', opt_str (PrivateIpAddress inst)),
      (PStr ''availability_zone'',
         opt_str (case Placement inst of None \<Rightarrow> None | Some pl \<Rightarrow> AvailabilityZone pl)),
      (PStr ''launch_time'', opt_str (utc_iso (LaunchTime inst))),
      (PStr ''ami_id'', opt_str (ImageId inst)),
      (PStr ''ami_name'', PNone),
      (PStr ''security_groups'',
         PList (map (\<lambda>sg. opt_str (ref_GroupId sg)) (get_list (SecurityGroups inst)))),
      (PStr ''tags'',
         PDict (if get_list (Tags inst) \<noteq> [] then tags_dict (get_list (Tags inst)) [] else []))]"

text \<open>
  \<open>ami_ids\<close> is a Python set; it is kept as a list without repetition, in the order
  the ids were first seen (the order in which \<open>list(ami_ids)\<close> lists a set is not fixed).
\<close>

definition add_ami :: "instance_raw \<Rightarrow> string list \<Rightarrow> string list" where
  "add_ami inst ami_ids =
     (case ImageId inst of
        None \<Rightarrow> ami_ids
      | Some a \<Rightarrow> if a = [] \<or> a \<in> set ami_ids then ami_ids else ami_ids @ [a])"

fun names_of :: "image_raw list \<Rightarrow> (string \<rightharpoonup> string option) \<Rightarrow> exc + (string \<rightharpoonup> string option)" where
  "names_of [] m = Inr m"
| "names_of (img # imgs) m =
     (case img_ImageId img of
        None \<Rightarrow> Inl (KeyError ''ImageId'')
      | Some i \<Rightarrow> names_of imgs (m(i \<mapsto> img_Name img)))"

definition ami_names :: "'w aws \<Rightarrow> string list \<Rightarrow> (string \<rightharpoonup> string option, 'w, 'l) io" where
  "ami_names ec2_client ids s =
     (if ids = [] then (Inr Map.empty, s)
      else case call (DescribeImages ids) (describe_images ec2_client ids) s of
        (Inr resp, s1) \<Rightarrow> (names_of (get_list (Images resp)) Map.empty, s1)
      | (Inl e, s1) \<Rightarrow> if is_client_error e then (Inr Map.empty, s1) else (Inl e, s1))"

definition resolve_ami :: "(string \<rightharpoonup> string option) \<Rightarrow> pydict \<Rightarrow> pydict" where
  "resolve_ami names r =
     (case dict_get r ''ami_id'' of
        PStr a \<Rightarrow>
          (case names a of
             Some nm \<Rightarrow> dict_set r (PStr ''ami_name'') (opt_str nm)
           | None \<Rightarrow> r)
      | _ \<Rightarrow> r)"

definition page_instances :: "instances_page list \<Rightarrow> instance_raw list" where
  "page_instances pages =
     concat (map (\<lambda>res. get_list (Instances res))
       (concat (map (\<lambda>page. get_list (Reservations page)) pages)))"

definition ec2_run :: "'w aws \<Rightarrow> (pydict list, 'w, 'l) io" where
  "ec2_run ec2_client s =
     (case call DescribeInstances (describe_instances ec2_client) s of
        ((pages, eo), s1) \<Rightarrow>
          (let results = map instance_record (page_instances pages);
               ami_ids = fold add_ami (page_instances pages) []
           in case eo of
                Some e \<Rightarrow> (Inl e, s1)
              | None \<Rightarrow>
                  (case ami_names ec2_client ami_ids s1 of
                     (Inl e, s2) \<Rightarrow> (Inl e, s2)
                   | (Inr names, s2) \<Rightarrow> (Inr (map (resolve_ami names) results), s2))))"

definition collect_ec2_instances :: "'w aws \<Rightarrow> (pydict list, 'w, 'l) io" where
  "collect_ec2_instances ec2_client s =
     or_out (try_once_retry_once (ec2_run ec2_client) ''EC2 instances'' s) []"

subsection \<open>S3 buckets\<close>

definition bucket_region :: "'w aws \<Rightarrow> string \<Rightarrow> (string, 'w, 'l) io" where
  "bucket_region s3_client name s =
     (case call (GetBucketLocation name) (get_bucket_location s3_client name) s of
        (Inr resp, s1) \<Rightarrow> (Inr (or_str (LocationConstraint resp) ''us-east-1''), s1)
      | (Inl e, s1) \<Rightarrow> if is_client_error e then (Inr ''unknown'', s1) else (Inl e, s1))"

text \<open>
  \<open>count\<close> and \<open>total\<close> belong to \<open>_bucket_stats\<close>; its nested \<open>_run\<close> assigns them
  through \<open>nonlocal\<close>, so they are the \<open>locals\<close> of the state while the guard runs \<open>_run\<close>.
\<close>

definition obj_size :: "object_raw \<Rightarrow> int" where
  "obj_size obj = (case Size obj of None \<Rightarrow> 0 | Some n \<Rightarrow> n)"

definition count_obj :: "object_raw \<Rightarrow> int \<times> int \<Rightarrow> int \<times> int" where
  "count_obj obj ct = (fst ct + 1, snd ct + obj_size obj)"

definition listing_size :: "object_raw list \<Rightarrow> int" where
  "listing_size objs = sum_list (map obj_size objs)"

definition page_objects :: "objects_page list \<Rightarrow> object_raw list" where
  "page_objects pages = concat (map (\<lambda>page. get_list (Contents page)) pages)"

definition bucket_stats_run :: "'w aws \<Rightarrow> string \<Rightarrow> (int \<times> int, 'w, int \<times> int) io" where
  "bucket_stats_run s3_client name s =
     (case call (ListObjectsV2 name) (list_objects_v2 s3_client name) s of
        ((pages, eo), s1) \<Rightarrow>
          (let s2 = s1\<lparr>locals := fold count_obj (page_objects pages) (locals s1)\<rparr>
           in after_pages eo (locals s2) s2))"

definition bucket_stats :: "'w aws \<Rightarrow> string \<Rightarrow> (int \<times> int, 'w, 'l) io" where
  "bucket_stats s3_client name s =
     (case try_once_retry_once (bucket_stats_run s3_client name) (''bucket '' @ name)
             (set_locals (0, 0) s) of
        (Inl e, s') \<Rightarrow> (Inl e, set_locals (locals s) s')
      | (Inr None, s') \<Rightarrow> (Inr (0, 0), set_locals (locals s) s')
      | (Inr (Some ct), s') \<Rightarrow> (Inr ct, set_locals (locals s) s'))"

text \<open>The body of the loop over the buckets; it appends to \<open>results\<close>.\<close>

definition s3_bucket_body :: "'w aws \<Rightarrow> bucket_raw \<Rightarrow> pydict list \<Rightarrow> (pydict list, 'w, 'l) io" where
  "s3_bucket_body s3_client b results s =
     (case bucket_Name b of
        None \<Rightarrow> (Inl (KeyError ''Name''), s)
      | Some name \<Rightarrow>
          (case bucket_stats s3_client name s of
             (Inl e, s1) \<Rightarrow> (Inl e, s1)
           | (Inr (count, size'), s1) \<Rightarrow>
               (case bucket_region s3_client name s1 of
                  (Inl e, s2) \<Rightarrow> (Inl e, s2)
                | (Inr region, s2) \<Rightarrow>
                    (Inr (results @
                       [[(PStr ''bucket_name'', PStr name),
                         (PStr ''creation_date'', opt_str (utc_iso (CreationDate b))),
                         (PStr ''region'', PStr region),
                         (PStr ''object_count'', PInt count),
                         (PStr ''size_bytes'', PInt size')]]), s2))))"

definition s3_run :: "'w aws \<Rightarrow> (pydict list, 'w, 'l) io" where
  "s3_run s3_client s =
     (case call ListBuckets (list_buckets s3_client) s of
        (Inl e, s1) \<Rightarrow> (Inl e, s1)
      | (Inr resp, s1) \<Rightarrow> for_each (s3_bucket_body s3_client) (get_list (Buckets resp)) [] s1)"

definition collect_s3_buckets :: "'w aws \<Rightarrow> (pydict list, 'w, 'l) io" where
  "collect_s3_buckets s3_client s =
     or_out (try_once_retry_once (s3_run s3_client) ''S3 buckets'' s) []"

subsection \<open>Security groups\<close>

definition fmt :: "perm_raw \<Rightarrow> string" where
  "fmt p =
     (if IpProtocol p = Some ''-1'' \<or> IpProtocol p = Some ''all'' then ''all''
      else if FromPort p \<noteq> ToPort p then str_port (FromPort p) @ ''-'' @ str_port (ToPort p)
      else str_port (FromPort p))"

definition inbound_rule :: "perm_raw \<Rightarrow> pydict" where
  "inbound_rule p =
     [(PStr ''protocol'',
         opt_str (if IpProtocol p \<noteq> Some ''-1'' then IpProtocol p else Some ''all'')),
      (PStr ''port_range'', PStr (fmt p)),
      (PStr ''source'',
         PStr (join '', '' (map (\<lambda>r. or_str (CidrIp r) []) (get_list (IpRanges p)))))]"

definition outbound_rule :: "perm_raw \<Rightarrow> pydict" where
  "outbound_rule p =
     [(PStr ''protocol'',
         opt_str (if IpProtocol p \<noteq> Some ''-1'' then IpProtocol p else Some ''all'')),
      (PStr ''port_range'', PStr (fmt p)),
      (PStr ''destination'',
         PStr (join '', '' (map (\<lambda>r. or_str (CidrIp r) []) (get_list (IpRanges p)))))]"

definition sg_record :: "sg_raw \<Rightarrow> pydict" where
  "sg_record g =
     [(PStr ''group_id'', opt_str (GroupId g)),
      (PStr ''group_name'', opt_str (GroupName g)),
      (PStr ''description'', opt_str (Description g)),
      (PStr ''vpc_id'', opt_str (VpcId g)),
      (PStr ''inbound_rules'', 
         PList (map (\<lambda>p. PDict (inbound_rule p)) (get_list (IpPermissions g)))),
      (PStr ''outbound_rules'',
         PList (map (\<lambda>p. PDict (outbound_rule p)) (get_list (IpPermissionsEgress g))))]"

definition sg_run :: "'w aws \<Rightarrow> (pydict list, 'w, 'l) io" where
  "sg_run ec2_client s =
     (case call DescribeSecurityGroups (describe_security_groups ec2_client) s of
        ((pages, eo), s1) \<Rightarrow>
          after_pages eo
            (map sg_record (concat (map (\<lambda>page. get_list (page_SecurityGroups page)) pages))) s1)"

definition collect_security_groups :: "'w aws \<Rightarrow> (pydict list, 'w, 'l) io" where
  "collect_security_groups ec2_client s =
     or_out (try_once_retry_once (sg_run ec2_client) ''security groups'' s) []"

subsection \<open>The report and the run\<close>

record args =
  arg_region :: "string option"
  arg_output :: "string option"
  arg_format :: string

definition running :: "pydict \<Rightarrow> bool" where
  "running i = (dict_get i ''state'' = PStr ''running'')"

definition payload ::
  "string \<Rightarrow> string \<Rightarrow> string \<Rightarrow> datetime \<Rightarrow>
   pydict list \<Rightarrow> pydict list \<Rightarrow> pydict list \<Rightarrow> pydict list \<Rightarrow> pyval" where
  "payload account_id user_arn region ts iam_users ec2_instances s3_buckets sec_groups =
     PDict
      [(PStr ''account_info'',
          PDict [(PStr ''account_id'', PStr account_id),
                 (PStr ''user_arn'', PStr user_arn),
                 (PStr ''region'', PStr region),
                 (PStr ''scan_timestamp'', opt_str (utc_iso (Some ts)))]),
       (PStr ''resources'',
          PDict [(PStr ''iam_users'', PList (map PDict iam_users)),
                 (PStr ''ec2_instances'', PList (map PDict ec2_instances)),
                 (PStr ''s3_buckets'', PList (map PDict s3_buckets)),
                 (PStr ''security_groups'', PList (map PDict sec_groups))]),
       (PStr ''summary'',
          PDict [(PStr ''total_users'', PInt (int (length iam_users))),
                 (PStr ''running_instances'', PInt (int (length (filter running ec2_instances)))),
                 (PStr ''total_buckets'', PInt (int (length s3_buckets))),
                 (PStr ''security_groups'', PInt (int (length sec_groups)))])]"

text \<open>
  \<open>main\<close> up to the assembled payload. Its rendering (\<open>to_json_blob\<close>, \<open>to_table\<close>) and
  the write to the output are left out; the one record \<open>aws\<close> stands for the session and
  the clients that \<open>build_boto3_clients\<close> makes.
\<close>

definition main :: "'w aws \<Rightarrow> args \<Rightarrow> (pyval, 'w, 'l) io" where
  "main aws a s =
     (case validate_region_or_exit aws (arg_region a) s of
        (Inl e, s1) \<Rightarrow> (Inl e, s1)
      | (Inr region, s1) \<Rightarrow>
     (case get_account_identity aws s1 of
        (Inl e, s2) \<Rightarrow> (Inl e, s2)
      | (Inr (account_id, user_arn), s2) \<Rightarrow>
     (case collect_iam_users aws s2 of
        (Inl e, s3) \<Rightarrow> (Inl e, s3)
      | (Inr iam_users, s3) \<Rightarrow>
     (case collect_ec2_instances aws s3 of
        (Inl e, s4) \<Rightarrow> (Inl e, s4)
      | (Inr ec2_instances, s4) \<Rightarrow>
     (case collect_s3_buckets aws s4 of
        (Inl e, s5) \<Rightarrow> (Inl e, s5)
      | (Inr s3_buckets, s5) \<Rightarrow>
     (case collect_security_groups aws s5 of
        (Inl e, s6) \<Rightarrow> (Inl e, s6)
      | (Inr sec_groups, s6) \<Rightarrow>
          (Inr (payload account_id user_arn region (now aws (world s6))
                  iam_users ec2_instances s3_buckets sec_groups), s6)))))))"

text \<open>
  The guard at the foot of the file, and the exit status the interpreter gives the
  process: the code of a \<open>SystemExit\<close>, 1 for any other exception that reaches the top,
  0 when the script ends.
\<close>

definition script :: "'w aws \<Rightarrow> args \<Rightarrow> (pyval, 'w, 'l) io" where
  "script aws a s =
     (case main aws a s of
        (Inl KeyboardInterrupt, s') \<Rightarrow> (Inl (SystemExit 130), s')
      | (r, s') \<Rightarrow> (r, s'))"

definition exit_status :: "exc + 'a \<Rightarrow> int" where
  "exit_status r = (case r of Inr _ \<Rightarrow> 0 | Inl (SystemExit n) \<Rightarrow> n | Inl _ \<Rightarrow> 1)"

definition exit_code :: "'w aws \<Rightarrow> args \<Rightarrow> ('w, 'l) st \<Rightarrow> int" where
  "exit_code aws a s = exit_status (fst (script aws a s))"

definition start :: "'w \<Rightarrow> ('w, unit) st" where
  "start w = \<lparr>world = w, locals = (), stderr = [], slept = 0, calls = []\<rparr>"

subsection \<open>A sample provider\<close>

text \<open>
  An account with nothing in it, on which every call succeeds; its state is a counter
  that the samples below use to tell a first call from a second.
\<close>

definition quiet :: "nat aws" where
  "quiet =
     \<lparr>available_regions = [''us-east-1'', ''us-west-2''],
      region_name = Some ''us-east-1'',
      now = (\<lambda>w. ''2025-01-01T00:00:00Z''),
      get_caller_identity =
        (\<lambda>w. (Inr \<lparr>Account = Some ''123456789012'',
                     Arn = Some ''arn:aws:iam::123456789012:user/test''\<rparr>, w)),
      get_paginator_list_users = (\<lambda>w. (Inr (), w)),
      list_users = (\<lambda>w. (([], None), w)),
      get_user = (\<lambda>u w. (Inr \<lparr>User = None\<rparr>, w)),
      list_attached_user_policies = (\<lambda>u w. (([], None), w)),
      describe_instances = (\<lambda>w. (([], None), w)),
      describe_images = (\<lambda>ids w. (Inr \<lparr>Images = None\<rparr>, w)),
      list_buckets = (\<lambda>w. (Inr \<lparr>Buckets = None\<rparr>, w)),
      get_bucket_location = (\<lambda>b w. (Inr \<lparr>LocationConstraint = None\<rparr>, w)),
      list_objects_v2 = (\<lambda>b w. (([], None), w)),
      describe_security_groups = (\<lambda>w. (([], None), w))\<rparr>"

definition no_args :: args where
  "no_args = \<lparr>arg_region = None, arg_output = None, arg_format = ''json''\<rparr>"

text \<open>An operation that times out on its first invocation and answers 7 afterwards.\<close>

definition flaky :: "(int, nat, unit) io" where
  "flaky s = (if world s = 0 then (Inl ReadTimeoutError, s\<lparr>world := 1\<rparr>)
              else (Inr 7, s\<lparr>world := Suc (world s)\<rparr>))"

definition down :: "(int, nat, unit) io" where
  "down s = (Inl EndpointConnectionError, s\<lparr>world := Suc (world s)\<rparr>)"

text \<open>Permission entries: every protocol, HTTP on port 80, and a range of TCP ports.\<close>

definition perm_all :: perm_raw where
  "perm_all = \<lparr>IpProtocol = Some ''-1'', FromPort = None, ToPort = None,
                IpRanges = Some [\<lparr>CidrIp = Some ''0.0.0.0/0''\<rparr>]\<rparr>"

definition perm_http :: perm_raw where
  "perm_http = \<lparr>IpProtocol = Some ''tcp'', FromPort = Some 80, ToPort = Some 80,
                 IpRanges = Some [\<lparr>CidrIp = Some ''10.0.0.0/8''\<rparr>, \<lparr>CidrIp = None\<rparr>]\<rparr>"

definition perm_range :: perm_raw where
  "perm_range = \<lparr>IpProtocol = Some ''tcp'', FromPort = Some 1000, ToPort = Some 2000,
                  IpRanges = None\<rparr>"

text \<open>
  One bucket holding an object of 200 bytes and one of 300 bytes, listed a page each.
  On \<open>slow_bucket\<close> the first listing times out after the first page and later listings
  succeed; on \<open>dead_bucket\<close> every listing times out after the first page; on
  \<open>locked_bucket\<close> the listing is refused after the first page.
\<close>

definition page1 :: objects_page where
  "page1 = \<lparr>Contents = Some [\<lparr>Size = Some 200\<rparr>]\<rparr>"

definition page2 :: objects_page where
  "page2 = \<lparr>Contents = Some [\<lparr>Size = Some 300\<rparr>]\<rparr>"

definition bucket1 :: bucket_raw where
  "bucket1 = \<lparr>bucket_Name = Some ''b1'', CreationDate = Some ''2024-05-01T12:00:00Z''\<rparr>"

definition slow_bucket :: "nat aws" where
  "slow_bucket =
     quiet\<lparr>list_buckets := (\<lambda>w. (Inr \<lparr>Buckets = Some [bucket1]\<rparr>, w)),
           list_objects_v2 :=
             (\<lambda>b w. if w = 0 then (([page1], Some ReadTimeoutError), 1)
                     else (([page1, page2], None), Suc w))\<rparr>"

definition dead_bucket :: "nat aws" where
  "dead_bucket =
     quiet\<lparr>list_buckets := (\<lambda>w. (Inr \<lparr>Buckets = Some [bucket1]\<rparr>, w)),
           list_objects_v2 := (\<lambda>b w. (([page1], Some ReadTimeoutError), Suc w))\<rparr>"

definition locked_bucket :: "nat aws" where
  "locked_bucket =
     quiet\<lparr>list_buckets := (\<lambda>w. (Inr \<lparr>Buckets = Some [bucket1]\<rparr>, w)),
           list_objects_v2 := (\<lambda>b w. (([page1], Some (ClientError ''AccessDenied'')), Suc w))\<rparr>"







text \<open>
  Two instances launched from one image, one running and one stopped. On \<open>shared_ami\<close>
  the image lookup answers, on \<open>images_denied\<close> it is refused, and on \<open>images_flaky\<close> it
  times out once and answers afterwards.
\<close>

definition inst1 :: instance_raw where
  "inst1 =
     \<lparr>InstanceId = Some ''i-1'', InstanceType = Some ''t3.micro'',
      State = Some \<lparr>state_Name = Some ''running''\<rparr>,
      PublicIpAddress = None, PrivateIpAddress = Some ''10.0.0.5'',
      Placement = Some \<lparr>AvailabilityZone = Some ''us-east-1a''\<rparr>,
      LaunchTime = Some ''2024-06-01T08:00:00Z'', ImageId = Some ''ami-1'',
      SecurityGroups = Some [\<lparr>ref_GroupId = Some ''sg-1''\<rparr>],
      Tags = Some [\<lparr>Key = Some ''Name'', Value = Some ''web''\<rparr>]\<rparr>"

definition inst2 :: instance_raw where
  "inst2 =
     \<lparr>InstanceId = Some ''i-2'', InstanceType = Some ''t3.micro'',
      State = Some \<lparr>state_Name = Some ''stopped''\<rparr>,
      PublicIpAddress = None, PrivateIpAddress = Some ''10.0.0.6'',
      Placement = None,
      LaunchTime = None, ImageId = Some ''ami-1'',
      SecurityGroups = None,
      Tags = None\<rparr>"

definition instances_page1 :: instances_page where
  "instances_page1 = \<lparr>Reservations = Some [\<lparr>Instances = Some [inst1, inst2]\<rparr>]\<rparr>"

definition image1 :: image_raw where
  "image1 = \<lparr>img_ImageId = Some ''ami-1'', img_Name = Some ''base-image''\<rparr>"






text \<open>
  An account with one user without policies, the two instances above, one bucket with two
  objects of 500 bytes together, and one security group that lets every protocol in.
\<close>

definition user1 :: user_raw where
  "user1 = \<lparr>UserName = Some ''alice'', CreateDate = Some ''2023-01-01T00:00:00Z'',
             UserId = Some ''AIDA1'', user_Arn = Some ''arn:aws:iam::123456789012:user/alice''\<rparr>"

definition group1 :: sg_raw where
  "group1 = \<lparr>GroupId = Some ''sg-1'', GroupName = Some ''default'',
              Description = Some ''default group'', VpcId = Some ''vpc-1'',
              IpPermissions = Some [perm_all], IpPermissionsEgress = None\<rparr>"

definition account :: "nat aws" where
  "account =
     quiet\<lparr>list_users := (\<lambda>w. (([\<lparr>Users = Some [user1]\<rparr>], None), w)),
           describe_instances := (\<lambda>w. (([instances_page1], None), w)),
           describe_images := (\<lambda>ids w. (Inr \<lparr>Images = Some [image1]\<rparr>, w)),
           list_buckets := (\<lambda>w. (Inr \<lparr>Buckets = Some [bucket1]\<rparr>, w)),
           list_objects_v2 := (\<lambda>b w. (([page1, page2], None), w)),
           describe_security_groups :=
             (\<lambda>w. (([\<lparr>page_SecurityGroups = Some [group1]\<rparr>], None), w))\<rparr>"


definition bucket1_record :: pydict where
  "bucket1_record =
     [(PStr ''bucket_name'', PStr ''b1''),
      (PStr ''creation_date'', PStr ''2024-05-01T12:00:00Z''),
      (PStr ''region'', PStr ''us-east-1''),
      (PStr ''object_count'', PInt 2),
      (PStr ''size_bytes'', PInt 500)]"






section \<open>Properties\<close>

lemma with_count_warn: "warn m (with_count n s) = with_count n (warn m s)"
  by (simp add: warn_def with_count_def set_locals_def)

lemma with_count_sleep: "sleep (with_count n s) = with_count n (sleep s)"
  by (simp add: sleep_def with_count_def set_locals_def)

lemma set_locals_same: "set_locals (locals s) s = s"
  by (cases s) (simp add: set_locals_def)

lemma set_locals_twice: "set_locals k (set_locals j s) = set_locals k s"
  by (simp add: set_locals_def)

lemma locals_set_locals: "locals (set_locals k s) = k"
  by (simp add: set_locals_def)

lemma counted_step:
  "fn s = (r, s') \<Longrightarrow> counted fn (with_count n s) = (r, with_count (Suc n) s')"
  by (simp add: counted_def with_count_def set_locals_twice locals_set_locals set_locals_same)



lemma guard_second_ok:
  "fn s = (Inl e1, s1) \<Longrightarrow> is_network e1 \<Longrightarrow>
   fn (sleep (warn (''Network issue while '' @ on @ '', retrying...'') s1)) = (Inr v, s2) \<Longrightarrow>
   try_once_retry_once fn on s = (Inr (Some v), s2)"
  by (simp add: try_once_retry_once_def)

lemma guard_second_network:
  "fn s = (Inl e1, s1) \<Longrightarrow> is_network e1 \<Longrightarrow>
   fn (sleep (warn (''Network issue while '' @ on @ '', retrying...'') s1)) = (Inl e2, s2) \<Longrightarrow>
   is_network e2 \<Longrightarrow>
   try_once_retry_once fn on s =
     (Inr None, warn (''Network issue persisted while '' @ on @ '', skipping.'') s2)"
  by (simp add: try_once_retry_once_def)

lemma guard_second_other:
  "fn s = (Inl e1, s1) \<Longrightarrow> is_network e1 \<Longrightarrow>
   fn (sleep (warn (''Network issue while '' @ on @ '', retrying...'') s1)) = (Inl e2, s2) \<Longrightarrow>
   \<not> is_network e2 \<Longrightarrow>
   try_once_retry_once fn on s = (Inl e2, s2)"
  by (simp add: try_once_retry_once_def)

lemma world_sleep_warn: "world (sleep (warn m s)) = world s"
  by (simp add: sleep_def warn_def)

lemma locals_sleep_warn: "locals (sleep (warn m s)) = locals s"
  by (simp add: sleep_def warn_def)

lemma calls_sleep_warn: "calls (sleep (warn m s)) = calls s"
  by (simp add: sleep_def warn_def)

text \<open>
  C2. An operation that fails with a network error on its first invocation and succeeds
  on the second makes the guard return the success value, after exactly two invocations.
  An operation whose first two invocations fail with network errors makes the guard return
  the degraded value \<open>None\<close>, again after exactly two invocations: there is no third.
\<close>

theorem guard_retries_once:
  fixes fn :: "('a, 'w, 'l) io"
  assumes "fn s = (Inl e1, s1)" and "is_network e1"
    and "fn (sleep (warn (''Network issue while '' @ on @ '', retrying...'') s1)) = (r2, s2)"
  shows "(\<forall>v. r2 = Inr v \<longrightarrow>
            try_once_retry_once (counted fn) on (with_count 0 s)
              = (Inr (Some v), with_count 2 s2)) \<and>
         (\<forall>e2. r2 = Inl e2 \<and> is_network e2 \<longrightarrow>
            try_once_retry_once (counted fn) on (with_count 0 s)
              = (Inr None,
                 with_count 2
                   (warn (''Network issue persisted while '' @ on @ '', skipping.'') s2)))"
proof -
  let ?m = "''Network issue while '' @ on @ '', retrying...''"
  have first: "counted fn (with_count 0 s) = (Inl e1, with_count 1 s1)"
    using counted_step [of fn s "Inl e1" s1 0] assms(1) by simp
  have mid: "sleep (warn ?m (with_count 1 s1)) = with_count 1 (sleep (warn ?m s1))"
    by (simp add: with_count_warn with_count_sleep)
  have second: "counted fn (with_count 1 (sleep (warn ?m s1))) = (r2, with_count 2 s2)"
    using counted_step [of fn "sleep (warn ?m s1)" r2 s2 1] assms(3)
    by (simp add: numeral_2_eq_2)
  show ?thesis
    using first mid second assms(2)
    by (simp add: try_once_retry_once_def with_count_warn)
qed

theorem guard_retries_once_witness:
  "try_once_retry_once (counted flaky) ''sample'' (with_count 0 (start 0))
     = (Inr (Some 7),
        with_count 2
          ((start 2)\<lparr>stderr := [''[WARNING] Network issue while sample, retrying...''],
                      slept := 1\<rparr>)) \<and>
   try_once_retry_once (counted down) ''sample'' (with_count 0 (start 0))
     = (Inr None,
        with_count 2
          ((start 2)\<lparr>stderr := [''[WARNING] Network issue while sample, retrying...'',
                                 ''[WARNING] Network issue persisted while sample, skipping.''],
                      slept := 1\<rparr>))"
proof -
  have a: "flaky (start 0) = (Inl ReadTimeoutError, start 1)"
    by (simp add: flaky_def start_def)
  have b: "flaky (sleep (warn (''Network issue while '' @ ''sample'' @ '', retrying...'') (start 1)))
           = (Inr 7, (start 2)\<lparr>stderr := [''[WARNING] Network issue while sample, retrying...''],
                                slept := 1\<rparr>)"
    by (simp add: flaky_def start_def sleep_def warn_def numeral_2_eq_2)
  have c: "down (start 0) = (Inl EndpointConnectionError, start 1)"
    by (simp add: down_def start_def)
  have d: "down (sleep (warn (''Network issue while '' @ ''sample'' @ '', retrying...'') (start 1)))
           = (Inl EndpointConnectionError,
              (start 2)\<lparr>stderr := [''[WARNING] Network issue while sample, retrying...''],
                         slept := 1\<rparr>)"
    by (simp add: down_def start_def sleep_def warn_def numeral_2_eq_2)
  show ?thesis
    using guard_retries_once [OF a _ b] guard_retries_once [OF c _ d]
    by (simp add: warn_def start_def)
qed

text \<open>
  C9. In a formatted rule, inbound or outbound, a protocol \<open>"-1"\<close> or \<open>"all"\<close> becomes
  \<open>"all"\<close> and its port range is \<open>"all"\<close>. For any other protocol the port range is
  \<open>str(FromPort)\<close> when \<open>FromPort\<close> equals \<open>ToPort\<close>, and \<open>str(FromPort)-str(ToPort)\<close>
  otherwise.
\<close>

theorem rule_formatting:
  "(IpProtocol p = Some ''-1'' \<or> IpProtocol p = Some ''all'' \<longrightarrow>
      dict_get (inbound_rule p) ''protocol'' = PStr ''all'' \<and>
      dict_get (inbound_rule p) ''port_range'' = PStr ''all'' \<and>
      dict_get (outbound_rule p) ''protocol'' = PStr ''all'' \<and>
      dict_get (outbound_rule p) ''port_range'' = PStr ''all'') \<and>
   (IpProtocol p \<noteq> Some ''-1'' \<and> IpProtocol p \<noteq> Some ''all'' \<longrightarrow>
      (FromPort p = ToPort p \<longrightarrow>
         dict_get (inbound_rule p) ''port_range'' = PStr (str_port (FromPort p)) \<and>
         dict_get (outbound_rule p) ''port_range'' = PStr (str_port (FromPort p))) \<and>
      (FromPort p \<noteq> ToPort p \<longrightarrow>
         dict_get (inbound_rule p) ''port_range''
           = PStr (str_port (FromPort p) @ ''-'' @ str_port (ToPort p)) \<and>
         dict_get (outbound_rule p) ''port_range''
           = PStr (str_port (FromPort p) @ ''-'' @ str_port (ToPort p))))"
  by (simp add: inbound_rule_def outbound_rule_def dict_get_def fmt_def opt_str_def)

lemma str_80: "str_port (Some 80) = ''80''"
  by (simp add: str_port_def str_int_def str_nat.simps)

lemma str_1000: "str_port (Some 1000) = ''1000''"
  by (simp add: str_port_def str_int_def str_nat.simps)

lemma str_2000: "str_port (Some 2000) = ''2000''"
  by (simp add: str_port_def str_int_def str_nat.simps)

theorem rule_formatting_witness:
  "dict_get (inbound_rule perm_all) ''protocol'' = PStr ''all'' \<and>
   dict_get (inbound_rule perm_all) ''port_range'' = PStr ''all'' \<and>
   dict_get (outbound_rule perm_all) ''port_range'' = PStr ''all'' \<and>
   dict_get (inbound_rule perm_http) ''port_range'' = PStr ''80'' \<and>
   dict_get (outbound_rule perm_range) ''port_range'' = PStr ''1000-2000''"
proof -
  have a: "IpProtocol perm_all = Some ''-1''"
    by (simp add: perm_all_def)
  have b: "IpProtocol perm_http \<noteq> Some ''-1'' \<and> IpProtocol perm_http \<noteq> Some ''all''"
    and b': "FromPort perm_http = Some 80" "ToPort perm_http = Some 80"
    by (simp_all add: perm_http_def)
  have c: "IpProtocol perm_range \<noteq> Some ''-1'' \<and> IpProtocol perm_range \<noteq> Some ''all''"
    and c': "FromPort perm_range \<noteq> ToPort perm_range"
      "FromPort perm_range = Some 1000" "ToPort perm_range = Some 2000"
    by (simp_all add: perm_range_def)
  show ?thesis
    using rule_formatting [of perm_all] rule_formatting [of perm_http]
      rule_formatting [of perm_range] a b b' c c'
    by (simp add: str_80 str_1000 str_2000)
qed

subsection \<open>Object counts of a bucket\<close>

lemma fold_count_obj:
  "fold count_obj objs ct = (fst ct + int (length objs), snd ct + listing_size objs)"
  by (induction objs arbitrary: ct) (simp_all add: count_obj_def listing_size_def)

lemma bucket_stats_run_unfold:
  "list_objects_v2 c name (world s) = ((pages, eo), w') \<Longrightarrow>
   bucket_stats_run c name s =
     after_pages eo
       (fst (locals s) + int (length (page_objects pages)),
        snd (locals s) + listing_size (page_objects pages))
       (s\<lparr>world := w', calls := calls s @ [ListObjectsV2 name],
           locals := (fst (locals s) + int (length (page_objects pages)),
                      snd (locals s) + listing_size (page_objects pages))\<rparr>)"
  by (simp add: bucket_stats_run_def call_def fold_count_obj Let_def)

text \<open>
  C5. The counters of \<open>_bucket_stats\<close> are not reset between the first attempt and the
  retry: when the first listing raises a network error after yielding pages with \<open>k\<close>
  objects of \<open>s\<close> bytes and the second listing runs to its end over \<open>n\<close> objects of \<open>b\<close>
  bytes, the result is \<open>(k + n, s + b)\<close>.
\<close>

theorem bucket_stats_overcount:
  assumes "list_objects_v2 c name (world s) = ((pages1, Some e1), w1)"
    and "is_network e1"
    and "list_objects_v2 c name w1 = ((pages2, None), w2)"
  shows "fst (bucket_stats c name s) =
           Inr (int (length (page_objects pages1)) + int (length (page_objects pages2)),
                listing_size (page_objects pages1) + listing_size (page_objects pages2))"
proof -
  let ?s0 = "set_locals (0::int, 0::int) s"
  let ?k = "int (length (page_objects pages1))" and ?b = "listing_size (page_objects pages1)"
  have w0: "world ?s0 = world s" and l0: "locals ?s0 = (0, 0)"
    by (simp_all add: set_locals_def)
  obtain s1 where first: "bucket_stats_run c name ?s0 = (Inl e1, s1)"
    and w1: "world s1 = w1" and l1: "locals s1 = (?k, ?b)"
    using bucket_stats_run_unfold [of c name ?s0 pages1 "Some e1" w1] assms(1)
    by (simp add: w0 l0 after_pages_def)
  let ?s1' = "sleep (warn (''Network issue while '' @ (''bucket '' @ name) @ '', retrying...'') s1)"
  obtain s2 where second: "bucket_stats_run c name ?s1' =
      (Inr (?k + int (length (page_objects pages2)), ?b + listing_size (page_objects pages2)), s2)"
    using bucket_stats_run_unfold [of c name ?s1' pages2 None w2] assms(3)
    by (simp add: w1 l1 world_sleep_warn locals_sleep_warn after_pages_def)
  show ?thesis
    using guard_second_ok [OF first assms(2) second]
    by (simp add: bucket_stats_def)
qed

theorem bucket_stats_overcount_witness:
  "fst (bucket_stats slow_bucket ''b1'' (start 0)) = Inr (3, 700) \<and>
   listing_size (page_objects [page1, page2]) = 500 \<and>
   length (page_objects [page1, page2]) = 2"
proof -
  have a: "list_objects_v2 slow_bucket ''b1'' (world (start 0))
           = (([page1], Some ReadTimeoutError), 1)"
    by (simp add: slow_bucket_def start_def)
  have b: "list_objects_v2 slow_bucket ''b1'' 1 = (([page1, page2], None), 2)"
    by (simp add: slow_bucket_def numeral_2_eq_2)
  have c: "is_network ReadTimeoutError"
    by simp
  show ?thesis
    using bucket_stats_overcount [OF a c b]
    by (simp add: page_objects_def page1_def page2_def get_list_def listing_size_def obj_size_def)
qed

text \<open>
  C4. When the listing of a bucket's objects raises a network error on the first attempt
  and again on the retry, \<open>_bucket_stats\<close> gives \<open>(0, 0)\<close> whatever the two attempts had
  counted, and the record that the loop over the buckets then appends for the bucket has
  \<open>object_count\<close> 0 and \<open>size_bytes\<close> 0.
\<close>

theorem bucket_stats_degraded:
  assumes "list_objects_v2 c name (world s) = ((pages1, Some e1), w1)"
    and "is_network e1"
    and "list_objects_v2 c name w1 = ((pages2, Some e2), w2)"
    and "is_network e2"
    and "bucket_Name b = Some name"
  shows "fst (bucket_stats c name s) = Inr (0, 0) \<and>
         (\<forall>results' s'. s3_bucket_body c b results s = (Inr results', s') \<longrightarrow>
            (\<exists>r. results' = results @ [r] \<and>
                 dict_get r ''bucket_name'' = PStr name \<and>
                 dict_get r ''object_count'' = PInt 0 \<and>
                 dict_get r ''size_bytes'' = PInt 0))"
proof -
  let ?s0 = "set_locals (0::int, 0::int) s"
  have w0: "world ?s0 = world s"
    by (simp add: set_locals_def)
  obtain s1 where first: "bucket_stats_run c name ?s0 = (Inl e1, s1)" and w1: "world s1 = w1"
    using bucket_stats_run_unfold [of c name ?s0 pages1 "Some e1" w1] assms(1)
    by (simp add: w0 after_pages_def)
  let ?s1' = "sleep (warn (''Network issue while '' @ (''bucket '' @ name) @ '', retrying...'') s1)"
  obtain s2 where second: "bucket_stats_run c name ?s1' = (Inl e2, s2)"
    using bucket_stats_run_unfold [of c name ?s1' pages2 "Some e2" w2] assms(3)
    by (simp add: w1 world_sleep_warn after_pages_def)
  have guard: "try_once_retry_once (bucket_stats_run c name) (''bucket '' @ name) ?s0 =
      (Inr None, warn (''Network issue persisted while '' @ (''bucket '' @ name) @ '', skipping.'') s2)"
    by (rule guard_second_network [OF first assms(2) second assms(4)])
  have stats: "fst (bucket_stats c name s) = Inr (0, 0)"
    using guard by (simp add: bucket_stats_def)
  have "\<exists>r. results' = results @ [r] \<and>
             dict_get r ''bucket_name'' = PStr name \<and>
             dict_get r ''object_count'' = PInt 0 \<and>
             dict_get r ''size_bytes'' = PInt 0"
    if body: "s3_bucket_body c b results s = (Inr results', s')" for results' s'
  proof -
    obtain t1 where t1: "bucket_stats c name s = (Inr (0, 0), t1)"
      using stats by (cases "bucket_stats c name s") simp
    show ?thesis
      using body assms(5) t1
      by (auto simp add: s3_bucket_body_def dict_get_def split: prod.splits sum.splits)
  qed
  with stats show ?thesis
    by blast
qed

theorem bucket_stats_degraded_witness:
  "length (page_objects [page1]) = 1 \<and>
   fst (bucket_stats dead_bucket ''b1'' (start 0)) = Inr (0, 0) \<and>
   fst (s3_bucket_body dead_bucket bucket1 [] (start 0)) =
     Inr [[(PStr ''bucket_name'', PStr ''b1''),
           (PStr ''creation_date'', PStr ''2024-05-01T12:00:00Z''),
           (PStr ''region'', PStr ''us-east-1''),
           (PStr ''object_count'', PInt 0),
           (PStr ''size_bytes'', PInt 0)]]"
proof -
  have a: "list_objects_v2 dead_bucket ''b1'' (world (start 0))
           = (([page1], Some ReadTimeoutError), 1)"
    by (simp add: dead_bucket_def start_def)
  have b: "list_objects_v2 dead_bucket ''b1'' 1 = (([page1], Some ReadTimeoutError), 2)"
    by (simp add: dead_bucket_def numeral_2_eq_2)
  have c: "is_network ReadTimeoutError"
    by simp
  have d: "bucket_Name bucket1 = Some ''b1''"
    by (simp add: bucket1_def)
  have stats: "fst (bucket_stats dead_bucket ''b1'' (start 0)) = Inr (0, 0)"
    using bucket_stats_degraded [OF a c b c d] by simp
  then obtain t1 where t1: "bucket_stats dead_bucket ''b1'' (start 0) = (Inr (0, 0), t1)"
    by (cases "bucket_stats dead_bucket ''b1'' (start 0)") simp
  have region: "fst (bucket_region dead_bucket ''b1'' t1) = Inr ''us-east-1''"
    by (simp add: bucket_region_def call_def dead_bucket_def quiet_def or_str_def
        split: prod.splits)
  have "fst (s3_bucket_body dead_bucket bucket1 [] (start 0)) =
     Inr [[(PStr ''bucket_name'', PStr ''b1''),
           (PStr ''creation_date'', PStr ''2024-05-01T12:00:00Z''),
           (PStr ''region'', PStr ''us-east-1''),
           (PStr ''object_count'', PInt 0),
           (PStr ''size_bytes'', PInt 0)]]"
    using t1 region
    by (auto simp add: s3_bucket_body_def bucket1_def utc_iso_def opt_str_def
        split: prod.splits sum.splits)
  with stats show ?thesis
    by (simp add: page_objects_def page1_def get_list_def)
qed

text \<open>
  C1. The claim is that an error other than a network error, raised in the middle of an
  enumeration, is caught near where it is raised and costs at most that item. On
  \<open>locked_bucket\<close> the listing of the one bucket's objects is refused with a
  \<open>ClientError\<close> after a first page: the exception passes the guard of \<open>_bucket_stats\<close>,
  the loop over the buckets, the guard of \<open>collect_s3_buckets\<close> and \<open>main\<close>. Nothing is
  printed to the error stream, no report is made and the exit status is 1. The region
  lookup of the same bucket, \<open>_bucket_region\<close>, does catch \<open>ClientError\<close>.
\<close>

theorem access_denied_aborts_run:
  "script locked_bucket no_args (start 0) =
     (Inl (ClientError ''AccessDenied''),
      \<lparr>world = 1, locals = (), stderr = [], slept = 0,
       calls = [GetCallerIdentity, GetPaginatorListUsers, ListUsers, DescribeInstances,
                ListBuckets, ListObjectsV2 ''b1'']\<rparr>) \<and>
   fst (collect_s3_buckets locked_bucket (start 0)) = Inl (ClientError ''AccessDenied'') \<and>
   exit_code locked_bucket no_args (start 0) = 1"
  by (simp add: script_def main_def validate_region_or_exit_def no_args_def or_str_def
      get_account_identity_def collect_iam_users_def iam_run_def collect_ec2_instances_def
      ec2_run_def ami_names_def page_instances_def collect_s3_buckets_def or_out_def or_list_def
      try_once_retry_once_def s3_run_def call_def quiet_def start_def get_list_def bucket1_def
      s3_bucket_body_def bucket_stats_def bucket_stats_run_def set_locals_def after_pages_def
      page_objects_def page1_def count_obj_def obj_size_def exit_code_def exit_status_def
      locked_bucket_def)

subsection \<open>The identity lookup\<close>







subsection \<open>Exit status\<close>







subsection \<open>Image names of instances\<close>





lemma ec2_run_unfold:
  "describe_instances c (world s) = ((pages, None), w1) \<Longrightarrow>
   ec2_run c s =
     (case ami_names c (fold add_ami (page_instances pages) [])
             (s\<lparr>world := w1, calls := calls s @ [DescribeInstances]\<rparr>) of
        (Inl e, s2) \<Rightarrow> (Inl e, s2)
      | (Inr names, s2) \<Rightarrow>
          (Inr (map (resolve_ami names) (map instance_record (page_instances pages))), s2))"
  by (simp add: ec2_run_def call_def Let_def)








lemma keys_dict_set: "k \<in> fst ` set d \<Longrightarrow> map fst (dict_set d k v) = map fst d"
  by (induction d) force+



lemma instance_keys:
  "map fst (instance_record i) =
     map PStr [''instance_id'', ''instance_type'', ''state'', ''public_ip'', ''private_ip'',
               ''availability_zone'', ''launch_time'', ''ami_id'', ''ami_name'',
               ''security_groups'', ''tags'']"
  by (simp add: instance_record_def)

lemma resolve_keys: "map fst (resolve_ami names (instance_record i)) = map fst (instance_record i)"
proof -
  have "PStr ''ami_name'' \<in> fst ` set (instance_record i)"
    by (simp add: instance_record_def)
  then show ?thesis
    by (simp add: resolve_ami_def keys_dict_set split: pyval.splits option.splits)
qed



lemma sample_instances: "page_instances [instances_page1] = [inst1, inst2]"
  by (simp add: page_instances_def instances_page1_def get_list_def)

lemma sample_ids: "fold add_ami [inst1, inst2] [] = [''ami-1'']"
  by (simp add: add_ami_def inst1_def inst2_def)





subsection \<open>The report\<close>















subsection \<open>Keys of the records\<close>

lemma guard_value:
  "try_once_retry_once fn on s = (Inr (Some v), s') \<Longrightarrow> \<exists>t t'. fn t = (Inr v, t')"
proof -
  assume g: "try_once_retry_once fn on s = (Inr (Some v), s')"
  obtain r1 s1 where f1: "fn s = (r1, s1)"
    by (metis prod.exhaust)
  show ?thesis
  proof (cases r1)
    case (Inr v1)
    with g f1 have "v1 = v"
      by (simp add: try_once_retry_once_def)
    with f1 Inr show ?thesis
      by blast
  next
    case (Inl e1)
    let ?s1 = "sleep (warn (''Network issue while '' @ on @ '', retrying...'') s1)"
    obtain r2 s2 where f2: "fn ?s1 = (r2, s2)"
      by (metis prod.exhaust)
    from g f1 Inl have net: "is_network e1"
      by (cases "is_network e1") (simp_all add: try_once_retry_once_def)
    show ?thesis
    proof (cases r2)
      case (Inr v2)
      with g f1 f2 Inl net have "v2 = v"
        by (simp add: try_once_retry_once_def)
      with f2 Inr show ?thesis
        by blast
    next
      case (Inl e2)
      with g f1 f2 \<open>r1 = Inl e1\<close> net show ?thesis
        by (cases "is_network e2") (simp_all add: try_once_retry_once_def)
    qed
  qed
qed

lemma or_out_value:
  "fst (or_out r []) = Inr xs \<Longrightarrow> xs = [] \<or> (\<exists>s'. r = (Inr (Some xs), s'))"
proof -
  assume o: "fst (or_out r []) = Inr xs"
  obtain x s' where r: "r = (x, s')"
    by (cases r)
  show ?thesis
  proof (cases x)
    case (Inl e)
    with o r show ?thesis
      by (simp add: or_out_def)
  next
    case (Inr y)
    with o r show ?thesis
      by (cases y) (simp_all add: or_out_def or_list_def split: if_splits)
  qed
qed


lemma s3_body_keys:
  "s3_bucket_body c b results s = (Inr res, s') \<Longrightarrow>
   \<exists>r. res = results @ [r] \<and>
       map fst r = map PStr [''bucket_name'', ''creation_date'', ''region'', ''object_count'',
                             ''size_bytes'']"
proof -
  assume body: "s3_bucket_body c b results s = (Inr res, s')"
  show ?thesis
  proof (cases "bucket_Name b")
    case None
    with body show ?thesis
      by (simp add: s3_bucket_body_def)
  next
    case (Some name)
    obtain r1 s1 where st: "bucket_stats c name s = (r1, s1)"
      by (metis prod.exhaust)
    show ?thesis
    proof (cases r1)
      case (Inl e)
      with body Some st show ?thesis
        by (simp add: s3_bucket_body_def)
    next
      case (Inr ct)
      obtain count size' where ct: "ct = (count, size')"
        by (cases ct)
      obtain r2 s2 where rg: "bucket_region c name s1 = (r2, s2)"
        by (metis prod.exhaust)
      show ?thesis
      proof (cases r2)
        case (Inl e)
        with body Some st \<open>r1 = Inr ct\<close> ct rg show ?thesis
          by (simp add: s3_bucket_body_def)
      next
        case (Inr region)
        with body Some st \<open>r1 = Inr ct\<close> ct rg show ?thesis
          by (auto simp add: s3_bucket_body_def)
      qed
    qed
  qed
qed

lemma s3_loop_keys:
  "for_each (s3_bucket_body c) bs acc s = (Inr res, s') \<Longrightarrow>
   \<forall>b \<in> set acc. map fst b = map PStr [''bucket_name'', ''creation_date'', ''region'',
                                         ''object_count'', ''size_bytes''] \<Longrightarrow>
   \<forall>b \<in> set res. map fst b = map PStr [''bucket_name'', ''creation_date'', ''region'',
                                         ''object_count'', ''size_bytes'']"
proof (induction bs arbitrary: acc s)
  case Nil
  then show ?case by simp
next
  case (Cons b bs)
  obtain r1 s1 where step: "s3_bucket_body c b acc s = (r1, s1)"
    by (metis prod.exhaust)
  show ?case
  proof (cases r1)
    case (Inl e)
    with Cons.prems(1) step show ?thesis
      by simp
  next
    case (Inr acc')
    with Cons.prems(1) step have rest: "for_each (s3_bucket_body c) bs acc' s1 = (Inr res, s')"
      by simp
    from s3_body_keys [OF step [unfolded Inr]] obtain r where
      "acc' = acc @ [r]"
      "map fst r = map PStr [''bucket_name'', ''creation_date'', ''region'', ''object_count'',
                             ''size_bytes'']"
      by blast
    with Cons.prems(2) have
      "\<forall>b \<in> set acc'. map fst b = map PStr [''bucket_name'', ''creation_date'', ''region'',
                                         ''object_count'', ''size_bytes'']"
      by simp
    with Cons.IH [OF rest] show ?thesis .
  qed
qed

lemma s3_run_keys:
  "s3_run c t = (Inr bs, t') \<Longrightarrow>
   \<forall>b \<in> set bs. map fst b = map PStr [''bucket_name'', ''creation_date'', ''region'',
                                        ''object_count'', ''size_bytes'']"
proof -
  assume run: "s3_run c t = (Inr bs, t')"
  obtain r s1 where l: "call ListBuckets (list_buckets c) t = (r, s1)"
    by (metis prod.exhaust)
  from run l obtain resp :: buckets_resp where
    "for_each (s3_bucket_body c) (get_list (Buckets resp)) [] s1 = (Inr bs, t')"
    by (cases r) (auto simp add: s3_run_def)
  then show ?thesis
    by (rule s3_loop_keys) simp
qed

lemma ec2_run_keys:
  "ec2_run c t = (Inr rs, t') \<Longrightarrow>
   \<forall>i \<in> set rs. map fst i = map PStr [''instance_id'', ''instance_type'', ''state'',
       ''public_ip'', ''private_ip'', ''availability_zone'', ''launch_time'', ''ami_id'',
       ''ami_name'', ''security_groups'', ''tags'']"
proof -
  assume run: "ec2_run c t = (Inr rs, t')"
  obtain pages eo w1 where d: "describe_instances c (world t) = ((pages, eo), w1)"
    by (metis prod.exhaust)
  have eo: "eo = None"
  proof (cases eo)
    case None
    then show ?thesis .
  next
    case (Some e)
    with run d show ?thesis
      by (simp add: ec2_run_def call_def)
  qed
  note u = ec2_run_unfold [OF d [unfolded eo]]
  obtain r2 s2 where a: "ami_names c (fold add_ami (page_instances pages) [])
      (t\<lparr>world := w1, calls := calls t @ [DescribeInstances]\<rparr>) = (r2, s2)"
    by (metis prod.exhaust)
  from run u a obtain names where
    "rs = map (resolve_ami names) (map instance_record (page_instances pages))"
    by (cases r2) auto
  then show ?thesis
    by (simp add: resolve_keys instance_keys)
qed

text \<open>
  C7, as the code has it. Every record that \<open>collect_s3_buckets\<close> returns has exactly
  the keys \<open>bucket_name\<close>, \<open>creation_date\<close>, \<open>region\<close>, \<open>object_count\<close> and
  \<open>size_bytes\<close>, in this order, and every record that \<open>collect_ec2_instances\<close> returns
  has exactly the keys \<open>instance_id\<close>, \<open>instance_type\<close>, \<open>state\<close>, \<open>public_ip\<close>,
  \<open>private_ip\<close>, \<open>availability_zone\<close>, \<open>launch_time\<close>, \<open>ami_id\<close>, \<open>ami_name\<close>,
  \<open>security_groups\<close> and \<open>tags\<close>: the size is under \<open>size_bytes\<close> and the list of
  security-group ids under \<open>security_groups\<close>.
\<close>

theorem record_keys:
  fixes c :: "'w aws" and s :: "('w, 'l) st"
  shows "(\<forall>bs. fst (collect_s3_buckets c s) = Inr bs \<longrightarrow>
      (\<forall>b \<in> set bs. map fst b = map PStr [''bucket_name'', ''creation_date'', ''region'',
                                           ''object_count'', ''size_bytes''])) \<and>
   (\<forall>rs. fst (collect_ec2_instances c s) = Inr rs \<longrightarrow>
      (\<forall>i \<in> set rs. map fst i = map PStr [''instance_id'', ''instance_type'', ''state'',
          ''public_ip'', ''private_ip'', ''availability_zone'', ''launch_time'', ''ami_id'',
          ''ami_name'', ''security_groups'', ''tags''])) \<and>
   (\<forall>i. dict_get (instance_record i) ''security_groups''
          = PList (map (\<lambda>sg. opt_str (ref_GroupId sg)) (get_list (SecurityGroups i))))"
proof -
  have s3: "\<forall>b \<in> set bs. map fst b = map PStr [''bucket_name'', ''creation_date'', ''region'',
                                           ''object_count'', ''size_bytes'']"
    if "fst (collect_s3_buckets c s) = Inr bs" for bs
  proof -
    from that or_out_value [of "try_once_retry_once (s3_run c) ''S3 buckets'' s" bs]
    consider "bs = []"
      | s' where "try_once_retry_once (s3_run c) ''S3 buckets'' s = (Inr (Some bs), s')"
      by (auto simp add: collect_s3_buckets_def)
    then show ?thesis
    proof cases
      case 1
      then show ?thesis by simp
    next
      case 2
      obtain t t' :: "('w, 'l) st" where "s3_run c t = (Inr bs, t')"
        using guard_value [OF 2] by blast
      then show ?thesis
        by (rule s3_run_keys)
    qed
  qed
  have ec2: "\<forall>i \<in> set rs. map fst i = map PStr [''instance_id'', ''instance_type'', ''state'',
          ''public_ip'', ''private_ip'', ''availability_zone'', ''launch_time'', ''ami_id'',
          ''ami_name'', ''security_groups'', ''tags'']"
    if "fst (collect_ec2_instances c s) = Inr rs" for rs
  proof -
    from that or_out_value [of "try_once_retry_once (ec2_run c) ''EC2 instances'' s" rs]
    consider "rs = []"
      | s' where "try_once_retry_once (ec2_run c) ''EC2 instances'' s = (Inr (Some rs), s')"
      by (auto simp add: collect_ec2_instances_def)
    then show ?thesis
    proof cases
      case 1
      then show ?thesis by simp
    next
      case 2
      obtain t t' :: "('w, 'l) st" where "ec2_run c t = (Inr rs, t')"
        using guard_value [OF 2] by blast
      then show ?thesis
        by (rule ec2_run_keys)
    qed
  qed
  have groups: "dict_get (instance_record i) ''security_groups''
          = PList (map (\<lambda>sg. opt_str (ref_GroupId sg)) (get_list (SecurityGroups i)))" for i
    by (simp add: instance_record_def dict_get_def)
  show ?thesis
    using s3 ec2 groups by blast
qed


lemma account_buckets:
  "fst (collect_s3_buckets account (start 0)) = Inr [bucket1_record]"
  by (simp add: collect_s3_buckets_def or_out_def or_list_def try_once_retry_once_def
      s3_run_def call_def quiet_def start_def get_list_def account_def
      utc_iso_def opt_str_def bucket1_def bucket1_record_def s3_bucket_body_def
      bucket_stats_def bucket_stats_run_def bucket_region_def set_locals_def or_str_def
      page_objects_def page1_def page2_def count_obj_def obj_size_def after_pages_def Let_def)

lemma account_instances:
  "fst (collect_ec2_instances account (start 0)) =
     Inr [resolve_ami [''ami-1'' \<mapsto> Some ''base-image''] (instance_record inst1),
          resolve_ami [''ami-1'' \<mapsto> Some ''base-image''] (instance_record inst2)]"
  by (simp add: collect_ec2_instances_def or_out_def or_list_def try_once_retry_once_def
      ec2_run_def call_def ami_names_def account_def quiet_def start_def
      sample_instances sample_ids [simplified] image1_def get_list_def Let_def)

theorem record_keys_witness:
  "fst (collect_s3_buckets account (start 0)) = Inr [bucket1_record] \<and>
   map fst bucket1_record
     = map PStr [''bucket_name'', ''creation_date'', ''region'', ''object_count'', ''size_bytes''] \<and>
   dict_get bucket1_record ''size_bytes'' = PInt 500 \<and>
   fst (collect_ec2_instances account (start 0)) =
     Inr [resolve_ami [''ami-1'' \<mapsto> Some ''base-image''] (instance_record inst1),
          resolve_ami [''ami-1'' \<mapsto> Some ''base-image''] (instance_record inst2)] \<and>
   map fst (resolve_ami [''ami-1'' \<mapsto> Some ''base-image''] (instance_record inst1))
     = map PStr [''instance_id'', ''instance_type'', ''state'', ''public_ip'', ''private_ip'',
                 ''availability_zone'', ''launch_time'', ''ami_id'', ''ami_name'',
                 ''security_groups'', ''tags''] \<and>
   dict_get (instance_record inst1) ''security_groups'' = PList [PStr ''sg-1'']"
proof -
  note t = record_keys [of account "start 0"]
  have b: "map fst bucket1_record
     = map PStr [''bucket_name'', ''creation_date'', ''region'', ''object_count'', ''size_bytes'']"
    using t account_buckets by auto
  have i: "map fst (resolve_ami [''ami-1'' \<mapsto> Some ''base-image''] (instance_record inst1))
     = map PStr [''instance_id'', ''instance_type'', ''state'', ''public_ip'', ''private_ip'',
                 ''availability_zone'', ''launch_time'', ''ami_id'', ''ami_name'',
                 ''security_groups'', ''tags'']"
    using t account_instances by auto
  have g: "dict_get (instance_record inst1) ''security_groups'' = PList [PStr ''sg-1'']"
    using t by (simp add: inst1_def get_list_def opt_str_def)
  have z: "dict_get bucket1_record ''size_bytes'' = PInt 500"
    by (simp add: bucket1_record_def dict_get_def)
  show ?thesis
    using account_buckets account_instances b i g z by simp
qed

text \<open>
  Against C7 as stated: the bucket record and the instance records of \<open>account\<close> have no
  key \<open>total_size_bytes\<close> and no key \<open>security_group_ids\<close>.
\<close>

theorem spec_keys_absent:
  "fst (collect_s3_buckets account (start 0)) = Inr [bucket1_record] \<and>
   map_of bucket1_record (PStr ''total_size_bytes'') = None \<and>
   fst (collect_ec2_instances account (start 0)) =
     Inr [resolve_ami [''ami-1'' \<mapsto> Some ''base-image''] (instance_record inst1),
          resolve_ami [''ami-1'' \<mapsto> Some ''base-image''] (instance_record inst2)] \<and>
   map_of (resolve_ami [''ami-1'' \<mapsto> Some ''base-image''] (instance_record inst1))
     (PStr ''security_group_ids'') = None \<and>
   map_of (resolve_ami [''ami-1'' \<mapsto> Some ''base-image''] (instance_record inst2))
     (PStr ''security_group_ids'') = None"
proof -
  have b: "map_of bucket1_record (PStr ''total_size_bytes'') = None"
    by (simp add: bucket1_record_def)
  have i: "map_of (resolve_ami names (instance_record x)) (PStr ''security_group_ids'') = None"
    for names x
  proof -
    have "PStr ''security_group_ids'' \<notin> set (map fst (resolve_ami names (instance_record x)))"
      unfolding resolve_keys instance_keys by simp
    then show ?thesis
      by (simp add: map_of_eq_None_iff)
  qed
  show ?thesis
    using account_buckets account_instances b i by simp
qed

end
